theory Spec2Isabelle
  imports Complex_Main "HOL-Library.Multiset"
begin

section \<open>JavaScript values as the dashboard reads them\<close>

text \<open>
  The dashboard page (\<^verbatim>\<open>src/pages/dashboard.js\<close>) reads the documents of a Firestore
  query, turns each into a record \<^verbatim>\<open>{id, steps, timestamp, originalTimestamp}\<close>, sorts the
  records by timestamp and derives a chart, three statistics and a recent-activity list.
  The source holds two copies of the page. The second adds a table of the raw documents
  and shows the user's id where the first shows the email; the code that normalizes, sorts
  and derives the views is the same in both, and the model follows the first.

  Numbers are JavaScript numbers with their special values: \<open>NaN\<close>, the two infinities and
  the finite ones, a finite number being the rational it denotes (the negative zero is
  not told from zero). The operations \<open>js_neg\<close> to \<open>js_div\<close> below give the exact result.
  The page subtracts two time values to order them, where only the sign of the result
  is read, and multiplies a number of seconds by 1000, which is exact for an integer
  number of seconds in the range of \<^verbatim>\<open>Date\<close>; the sum and the quotient of the statistics
  are rounded by the engine to a double, see \<open>double_add\<close> and \<open>double_div\<close>.
\<close>

datatype jsnum = NaN | PosInf | NegInf | Fin rat

definition signed_inf :: "bool \<Rightarrow> jsnum" where
  "signed_inf positive = (if positive then PosInf else NegInf)"

fun js_neg :: "jsnum \<Rightarrow> jsnum" where
  "js_neg NaN = NaN"
| "js_neg PosInf = NegInf"
| "js_neg NegInf = PosInf"
| "js_neg (Fin a) = Fin (- a)"

text \<open>\<^verbatim>\<open>a + b\<close> on numbers.\<close>

fun js_add :: "jsnum \<Rightarrow> jsnum \<Rightarrow> jsnum" where
  "js_add NaN b = NaN"
| "js_add a NaN = NaN"
| "js_add PosInf NegInf = NaN"
| "js_add NegInf PosInf = NaN"
| "js_add PosInf b = PosInf"
| "js_add NegInf b = NegInf"
| "js_add (Fin a) PosInf = PosInf"
| "js_add (Fin a) NegInf = NegInf"
| "js_add (Fin a) (Fin b) = Fin (a + b)"

text \<open>\<^verbatim>\<open>a - b\<close> on numbers.\<close>

definition js_sub :: "jsnum \<Rightarrow> jsnum \<Rightarrow> jsnum" where
  "js_sub a b = js_add a (js_neg b)"

text \<open>\<^verbatim>\<open>a * b\<close> on numbers: an infinity times zero is \<open>NaN\<close>.\<close>

fun js_mul :: "jsnum \<Rightarrow> jsnum \<Rightarrow> jsnum" where
  "js_mul NaN b = NaN"
| "js_mul a NaN = NaN"
| "js_mul (Fin a) (Fin b) = Fin (a * b)"
| "js_mul (Fin a) PosInf = (if a = 0 then NaN else signed_inf (0 < a))"
| "js_mul (Fin a) NegInf = (if a = 0 then NaN else signed_inf (a < 0))"
| "js_mul PosInf (Fin b) = (if b = 0 then NaN else signed_inf (0 < b))"
| "js_mul NegInf (Fin b) = (if b = 0 then NaN else signed_inf (b < 0))"
| "js_mul PosInf PosInf = PosInf"
| "js_mul PosInf NegInf = NegInf"
| "js_mul NegInf PosInf = NegInf"
| "js_mul NegInf NegInf = PosInf"

text \<open>
  \<^verbatim>\<open>a / b\<close> on numbers: zero by zero and infinity by infinity are \<open>NaN\<close>, a non-zero
  finite number by zero is an infinity (the zero is the positive one: the page divides by
  an array length).
\<close>

fun js_div :: "jsnum \<Rightarrow> jsnum \<Rightarrow> jsnum" where
  "js_div NaN b = NaN"
| "js_div a NaN = NaN"
| "js_div (Fin a) (Fin b) =
     (if b = 0 then (if a = 0 then NaN else signed_inf (0 < a)) else Fin (a / b))"
| "js_div (Fin a) PosInf = Fin 0"
| "js_div (Fin a) NegInf = Fin 0"
| "js_div PosInf (Fin b) = signed_inf (0 \<le> b)"
| "js_div NegInf (Fin b) = signed_inf (b < 0)"
| "js_div PosInf PosInf = NaN"
| "js_div PosInf NegInf = NaN"
| "js_div NegInf PosInf = NaN"
| "js_div NegInf NegInf = NaN"

text \<open>\<^verbatim>\<open>Math.round(x)\<close>: the integer nearest to \<open>x\<close>, a tie going up.\<close>

fun Math_round :: "jsnum \<Rightarrow> jsnum" where
  "Math_round (Fin a) = Fin (of_int \<lfloor>a + 1 / 2\<rfloor>)"
| "Math_round x = x"

text \<open>\<^verbatim>\<open>a <= b\<close> and \<^verbatim>\<open>a > 0\<close> on numbers: every comparison with \<open>NaN\<close> is false.\<close>

fun js_le :: "jsnum \<Rightarrow> jsnum \<Rightarrow> bool" where
  "js_le NaN b = False"
| "js_le a NaN = False"
| "js_le NegInf b = True"
| "js_le a PosInf = True"
| "js_le PosInf b = False"
| "js_le (Fin a) NegInf = False"
| "js_le (Fin a) (Fin b) = (a \<le> b)"

fun js_positive :: "jsnum \<Rightarrow> bool" where
  "js_positive PosInf = True"
| "js_positive (Fin a) = (0 < a)"
| "js_positive x = False"

text \<open>\<open>ToBoolean\<close> on a number: zero and \<open>NaN\<close> are falsy.\<close>

fun truthy_num :: "jsnum \<Rightarrow> bool" where
  "truthy_num NaN = False"
| "truthy_num (Fin a) = (a \<noteq> 0)"
| "truthy_num x = True"

text \<open>
  A \<^verbatim>\<open>Date\<close> object holds a time value: a whole number of milliseconds since the epoch, at
  most \<open>8.64e15\<close> in magnitude, or \<open>NaN\<close> (an invalid date).
\<close>

datatype js_date = InvalidDate | Date int

text \<open>\<open>ToNumber\<close> of a date, as the subtraction of two dates applies it.\<close>

fun date_to_number :: "js_date \<Rightarrow> jsnum" where
  "date_to_number InvalidDate = NaN"
| "date_to_number (Date t) = Fin (of_int t)"

text \<open>
  \<^verbatim>\<open>new Date(n)\<close> for a number \<open>n\<close> (\<open>TimeClip\<close>): invalid when \<open>n\<close> is not finite or beyond
  \<open>8.64e15\<close> in magnitude, else \<open>n\<close> truncated towards zero.
\<close>

definition ToInteger :: "rat \<Rightarrow> int" where
  "ToInteger a = (if 0 \<le> a then \<lfloor>a\<rfloor> else \<lceil>a\<rceil>)"

fun new_Date :: "jsnum \<Rightarrow> js_date" where
  "new_Date (Fin a) = (if \<bar>a\<bar> \<le> 8640000000000000 then Date (ToInteger a) else InvalidDate)"
| "new_Date x = InvalidDate"

text \<open>
  The value of a document's \<^verbatim>\<open>timestamp\<close> field. A Firestore document holds null, booleans,
  numbers, strings, maps and \<^verbatim>\<open>Timestamp\<close> objects; a field the document lacks reads as
  \<^verbatim>\<open>undefined\<close>. A map is a plain object, the list of its own members. The only callable a
  document can expose is the \<^verbatim>\<open>toDate\<close> method of a \<^verbatim>\<open>Timestamp\<close>, which takes no argument
  and returns a \<^verbatim>\<open>Date\<close>: \<open>JMethod d\<close> is a callable returning the date \<open>d\<close>, so a
  \<^verbatim>\<open>Timestamp\<close> is \<open>JObj [(''seconds'', _), (''nanoseconds'', _), (''toDate'', JMethod d)]\<close>.
  Arrays, byte strings, references and geographic points are not modelled.
\<close>

datatype jsval =
    JUndefined
  | JNull
  | JBool bool
  | JNum jsnum
  | JStr string
  | JObj "(string \<times> jsval) list"
  | JMethod js_date

datatype js_error = TypeError | QueryError string

text \<open>\<open>ToBoolean\<close>.\<close>

fun truthy :: "jsval \<Rightarrow> bool" where
  "truthy JUndefined = False"
| "truthy JNull = False"
| "truthy (JBool b) = b"
| "truthy (JNum n) = truthy_num n"
| "truthy (JStr s) = (s \<noteq> [])"
| "truthy (JObj ms) = True"
| "truthy (JMethod d) = True"

text \<open>
  \<^verbatim>\<open>v.name\<close>: a \<^verbatim>\<open>TypeError\<close> on \<^verbatim>\<open>undefined\<close> and \<^verbatim>\<open>null\<close>, the own member of a plain object
  (\<^verbatim>\<open>undefined\<close> when it has none), and \<^verbatim>\<open>undefined\<close> on a boolean, a number, a string or a
  function. The page reads the names \<^verbatim>\<open>toDate\<close> and \<^verbatim>\<open>seconds\<close> only, which no built-in
  prototype defines.
\<close>

fun member :: "jsval \<Rightarrow> string \<Rightarrow> js_error + jsval" where
  "member JUndefined name = Inl TypeError"
| "member JNull name = Inl TypeError"
| "member (JObj ms) name = Inr (case map_of ms name of None \<Rightarrow> JUndefined | Some v \<Rightarrow> v)"
| "member v name = Inr JUndefined"

text \<open>\<^verbatim>\<open>v?.name\<close>: \<^verbatim>\<open>undefined\<close> on \<^verbatim>\<open>undefined\<close> and \<^verbatim>\<open>null\<close>, else \<^verbatim>\<open>v.name\<close>.\<close>

fun opt_member :: "jsval \<Rightarrow> string \<Rightarrow> jsval" where
  "opt_member JUndefined name = JUndefined"
| "opt_member JNull name = JUndefined"
| "opt_member (JObj ms) name = (case map_of ms name of None \<Rightarrow> JUndefined | Some v \<Rightarrow> v)"
| "opt_member v name = JUndefined"

text \<open>\<^verbatim>\<open>f()\<close>: a \<^verbatim>\<open>TypeError\<close> unless \<open>f\<close> is callable.\<close>

fun call :: "jsval \<Rightarrow> js_error + js_date" where
  "call (JMethod d) = Inr d"
| "call v = Inl TypeError"

text \<open>
  What the page takes from the JavaScript engine and its surroundings: the clock, read by
  \<^verbatim>\<open>new Date()\<close> while document number \<open>i\<close> of the snapshot is processed (each document reads
  it at most once), the parser behind \<^verbatim>\<open>new Date(string)\<close> (an invalid date for a string
  it cannot parse), the conversion of a string to a number, the short time label of
  \<^verbatim>\<open>toLocaleTimeString\<close>, the wording of a \<^verbatim>\<open>TypeError\<close>, the rounding of an exact
  arithmetic result to a double (an infinity when it overflows), the text of a number and
  the text of a function.
\<close>

record runtime =
  clock :: "nat \<Rightarrow> int"
  Date_parse :: "string \<Rightarrow> js_date"
  StringToNumber :: "string \<Rightarrow> jsnum"
  toLocaleTimeString :: "js_date \<Rightarrow> string"
  TypeError_message :: string
  round_double :: "rat \<Rightarrow> jsnum"
  NumberToString :: "jsnum \<Rightarrow> string"
  FunctionToString :: string

text \<open>
  \<open>ToNumber\<close>, as \<^verbatim>\<open>seconds * 1000\<close> applies it to its left operand. A plain object is
  converted through \<^verbatim>\<open>valueOf\<close> and \<^verbatim>\<open>toString\<close>: the inherited \<^verbatim>\<open>toString\<close> gives
  \<^verbatim>\<open>"[object Object]"\<close>, which is no number; an own \<^verbatim>\<open>toString\<close> member hides it, is not
  callable or returns an object, and the conversion raises. The text of a function is no
  number either.
\<close>

fun ToNumber :: "runtime \<Rightarrow> jsval \<Rightarrow> js_error + jsnum" where
  "ToNumber rt JUndefined = Inr NaN"
| "ToNumber rt JNull = Inr (Fin 0)"
| "ToNumber rt (JBool b) = Inr (Fin (if b then 1 else 0))"
| "ToNumber rt (JNum n) = Inr n"
| "ToNumber rt (JStr s) = Inr (StringToNumber rt s)"
| "ToNumber rt (JObj ms) = (case map_of ms ''toString'' of None \<Rightarrow> Inr NaN | Some v \<Rightarrow> Inl TypeError)"
| "ToNumber rt (JMethod d) = Inr NaN"

text \<open>
  \<open>ToPrimitive\<close>, as \<^verbatim>\<open>+\<close> applies it to both operands: a plain object becomes the string
  \<^verbatim>\<open>"[object Object]"\<close> unless an own \<^verbatim>\<open>toString\<close> member makes the conversion raise, a
  function becomes its text, and a primitive value stays as it is.
\<close>

fun ToPrimitive :: "runtime \<Rightarrow> jsval \<Rightarrow> js_error + jsval" where
  "ToPrimitive rt (JObj ms) =
     (case map_of ms ''toString'' of
        None \<Rightarrow> Inr (JStr ''[object Object]'')
      | Some v \<Rightarrow> Inl TypeError)"
| "ToPrimitive rt (JMethod d) = Inr (JStr (FunctionToString rt))"
| "ToPrimitive rt v = Inr v"

text \<open>\<open>ToString\<close> of a primitive value.\<close>

fun ToString :: "runtime \<Rightarrow> jsval \<Rightarrow> string" where
  "ToString rt JUndefined = ''undefined''"
| "ToString rt JNull = ''null''"
| "ToString rt (JBool b) = (if b then ''true'' else ''false'')"
| "ToString rt (JNum n) = NumberToString rt n"
| "ToString rt (JStr s) = s"
| "ToString rt (JObj ms) = ''[object Object]''"
| "ToString rt (JMethod d) = FunctionToString rt"

fun is_string :: "jsval \<Rightarrow> bool" where
  "is_string (JStr s) = True"
| "is_string v = False"

text \<open>
  The sum and the quotient of two numbers as the engine computes them: the exact result
  of two finite operands is rounded to a double.
\<close>

fun double_add :: "runtime \<Rightarrow> jsnum \<Rightarrow> jsnum \<Rightarrow> jsnum" where
  "double_add rt (Fin a) (Fin b) = round_double rt (a + b)"
| "double_add rt x y = js_add x y"

fun double_div :: "runtime \<Rightarrow> jsnum \<Rightarrow> jsnum \<Rightarrow> jsnum" where
  "double_div rt (Fin a) (Fin b) = (if b = 0 then js_div (Fin a) (Fin b) else round_double rt (a / b))"
| "double_div rt x y = js_div x y"

text \<open>
  \<^verbatim>\<open>a + b\<close> on values: both operands are made primitive; if one of them is a string the
  result is the concatenation of their texts, else the sum of their numbers.
\<close>

definition js_plus :: "runtime \<Rightarrow> jsval \<Rightarrow> jsval \<Rightarrow> js_error + jsval" where
  "js_plus rt a b =
     (case ToPrimitive rt a of
        Inl e \<Rightarrow> Inl e
      | Inr pa \<Rightarrow>
          (case ToPrimitive rt b of
             Inl e \<Rightarrow> Inl e
           | Inr pb \<Rightarrow>
               if is_string pa \<or> is_string pb then Inr (JStr (ToString rt pa @ ToString rt pb))
               else
                 (case ToNumber rt pa of
                    Inl e \<Rightarrow> Inl e
                  | Inr x \<Rightarrow>
                      (case ToNumber rt pb of
                         Inl e \<Rightarrow> Inl e
                       | Inr y \<Rightarrow> Inr (JNum (double_add rt x y))))))"

section \<open>Normalizing the documents\<close>

text \<open>
  A document of the snapshot: \<^verbatim>\<open>doc.id\<close> and the fields of \<^verbatim>\<open>doc.data()\<close> the page reads,
  each of them any value; a field the document lacks is \<open>JUndefined\<close>.
\<close>

record raw_doc =
  doc_id :: string
  doc_steps :: jsval
  doc_stepCount :: jsval
  doc_timestamp :: jsval

record step_record =
  rec_id :: string
  steps :: jsval
  timestamp :: js_date
  originalTimestamp :: jsval

text \<open>\<^verbatim>\<open>a || b\<close>: \<open>a\<close> when it is truthy, else \<open>b\<close>.\<close>

definition js_or :: "jsval \<Rightarrow> jsval \<Rightarrow> jsval" where
  "js_or a b = (if truthy a then a else b)"

text \<open>\<^verbatim>\<open>docData.steps || docData.stepCount || 0\<close>.\<close>

definition resolve_steps :: "raw_doc \<Rightarrow> jsval" where
  "resolve_steps d = js_or (js_or (doc_steps d) (doc_stepCount d)) (JNum (Fin 0))"

text \<open>
  The chain of tests on \<^verbatim>\<open>docData.timestamp\<close>, in the order of the source; \<open>now\<close> is the
  clock at this document.
  \<^verbatim>\<open>
  if (docData.timestamp?.toDate) { timestamp = docData.timestamp.toDate(); }
  else if (docData.timestamp?.seconds) { timestamp = new Date(docData.timestamp.seconds * 1000); }
  else if (typeof docData.timestamp === 'number') { timestamp = new Date(docData.timestamp); }
  else if (typeof docData.timestamp === 'string') { timestamp = new Date(docData.timestamp); }
  else { timestamp = new Date(); }
  \<close>
\<close>

definition resolve_timestamp :: "runtime \<Rightarrow> int \<Rightarrow> jsval \<Rightarrow> js_error + js_date" where
  "resolve_timestamp rt now ts =
     (if truthy (opt_member ts ''toDate'') then
        (case member ts ''toDate'' of Inl e \<Rightarrow> Inl e | Inr f \<Rightarrow> call f)
      else if truthy (opt_member ts ''seconds'') then
        (case member ts ''seconds'' of Inl e \<Rightarrow> Inl e
         | Inr s \<Rightarrow> (case ToNumber rt s of Inl e \<Rightarrow> Inl e
                     | Inr n \<Rightarrow> Inr (new_Date (js_mul n (Fin 1000)))))
      else (case ts of
              JNum n \<Rightarrow> Inr (new_Date n)
            | JStr s \<Rightarrow> Inr (Date_parse rt s)
            | _ \<Rightarrow> Inr (Date now)))"

text \<open>The callback of \<^verbatim>\<open>snapshot.docs.map\<close>: one document to one record, or the exception.\<close>

definition normalize_doc :: "runtime \<Rightarrow> int \<Rightarrow> raw_doc \<Rightarrow> js_error + step_record" where
  "normalize_doc rt now d =
     (case resolve_timestamp rt now (doc_timestamp d) of
        Inl e \<Rightarrow> Inl e
      | Inr t \<Rightarrow> Inr \<lparr>rec_id = doc_id d, steps = resolve_steps d, timestamp = t,
                     originalTimestamp = doc_timestamp d\<rparr>)"

text \<open>
  \<^verbatim>\<open>snapshot.docs.map(callback)\<close> from document number \<open>i\<close> on: the records in document
  order, or the first exception a callback raises.
\<close>

fun normalize_from :: "runtime \<Rightarrow> nat \<Rightarrow> raw_doc list \<Rightarrow> js_error + step_record list" where
  "normalize_from rt i [] = Inr []"
| "normalize_from rt i (d # ds) =
     (case normalize_doc rt (clock rt i) d of
        Inl e \<Rightarrow> Inl e
      | Inr r \<Rightarrow> (case normalize_from rt (Suc i) ds of
                    Inl e \<Rightarrow> Inl e
                  | Inr rs \<Rightarrow> Inr (r # rs)))"

definition normalize :: "runtime \<Rightarrow> raw_doc list \<Rightarrow> js_error + step_record list" where
  "normalize rt docs = normalize_from rt 0 docs"

section \<open>Sorting by timestamp\<close>

text \<open>
  \<^verbatim>\<open>data.sort((a, b) => a.timestamp - b.timestamp)\<close>. The comparator subtracts the two
  dates as numbers, so it is \<open>NaN\<close> as soon as one of them is invalid.
\<close>

definition compare_timestamps :: "step_record \<Rightarrow> step_record \<Rightarrow> jsnum" where
  "compare_timestamps a b =
     js_sub (date_to_number (timestamp a)) (date_to_number (timestamp b))"

text \<open>
  \<^verbatim>\<open>Array.prototype.sort(comparefn)\<close> belongs to the engine. ECMAScript asks for a stable
  sort that places \<open>x\<close> after \<open>y\<close> only when \<open>comparefn(x, y) > 0\<close>, a result of zero or
  \<open>NaN\<close> leaving the two as they are; the model is the stable insertion sort doing exactly
  that. For a comparator that orders the elements consistently every stable sort returns
  the same array; for an inconsistent one (here: invalid dates) ECMAScript leaves the order
  to the engine, and the model gives the order insertion produces.
\<close>

fun sort_insert :: "('a \<Rightarrow> 'a \<Rightarrow> jsnum) \<Rightarrow> 'a \<Rightarrow> 'a list \<Rightarrow> 'a list" where
  "sort_insert comparefn x [] = [x]"
| "sort_insert comparefn x (y # ys) =
     (if js_positive (comparefn x y) then y # sort_insert comparefn x ys else x # y # ys)"

definition Array_sort :: "('a \<Rightarrow> 'a \<Rightarrow> jsnum) \<Rightarrow> 'a list \<Rightarrow> 'a list" where
  "Array_sort comparefn xs = foldr (sort_insert comparefn) xs []"

definition sort_by_timestamp :: "step_record list \<Rightarrow> step_record list" where
  "sort_by_timestamp data = Array_sort compare_timestamps data"

text \<open>
  Non-decreasing in the instant: every record's instant is \<^verbatim>\<open><=\<close> the instant of every
  later record.
\<close>

definition chronological :: "step_record list \<Rightarrow> bool" where
  "chronological rs =
     sorted_wrt (\<lambda>a b. js_le (date_to_number (timestamp a)) (date_to_number (timestamp b))) rs"

definition valid_date :: "js_date \<Rightarrow> bool" where
  "valid_date d = (d \<noteq> InvalidDate)"

section \<open>Fetching\<close>

text \<open>
  The state of the page (the four \<^verbatim>\<open>useState\<close> cells). The diagnostic text is kept as
  the message it is built from, not as the formatted string.
\<close>

datatype debug_info =
    NoDebugInfo
  | NoDocumentsFound string
  | SuccessfullyLoaded nat "js_date option"
  | ErrorDetails js_error

record page_state =
  stepData :: "step_record list"
  error :: string
  isLoading :: bool
  debugInfo :: debug_info

record user =
  uid :: string
  email :: string

text \<open>What \<^verbatim>\<open>await getDocs(stepsQuery)\<close> does: it raises, or it returns the snapshot.\<close>

datatype query_outcome = Rejected js_error | Snapshot "raw_doc list"

definition error_message :: "runtime \<Rightarrow> js_error \<Rightarrow> string" where
  "error_message rt e = (case e of TypeError \<Rightarrow> TypeError_message rt | QueryError m \<Rightarrow> m)"

text \<open>
  The body of the \<^verbatim>\<open>try\<close> block: the exception that leaves it, or the state at its end.
  No state is set before the last statement that can raise.
\<close>

definition fetch_try :: "runtime \<Rightarrow> user \<Rightarrow> query_outcome \<Rightarrow> page_state \<Rightarrow> js_error + page_state" where
  "fetch_try rt u outcome s =
     (case outcome of
        Rejected e \<Rightarrow> Inl e
      | Snapshot docs \<Rightarrow>
          if docs = [] then
            Inr (s\<lparr>debugInfo := NoDocumentsFound (email u), stepData := [], isLoading := False\<rparr>)
          else
            (case normalize rt docs of
               Inl e \<Rightarrow> Inl e
             | Inr data \<Rightarrow>
                 (let sorted_data = sort_by_timestamp data in
                  Inr (s\<lparr>stepData := sorted_data,
                         debugInfo := SuccessfullyLoaded (length sorted_data)
                           (case rev sorted_data of [] \<Rightarrow> None | r # _ \<Rightarrow> Some (timestamp r))\<rparr>))))"

definition fetch_catch :: "runtime \<Rightarrow> js_error \<Rightarrow> page_state \<Rightarrow> page_state" where
  "fetch_catch rt e s =
     s\<lparr>error := ''Error fetching data: '' @ error_message rt e, debugInfo := ErrorDetails e\<rparr>"

text \<open>
  \<^verbatim>\<open>fetchData\<close>: nothing without a user; else the three resets, the \<^verbatim>\<open>try\<close> block, the
  \<^verbatim>\<open>catch\<close> block on an exception, and \<^verbatim>\<open>setIsLoading(false)\<close> in \<^verbatim>\<open>finally\<close>.
\<close>

definition fetchData :: "runtime \<Rightarrow> user option \<Rightarrow> query_outcome \<Rightarrow> page_state \<Rightarrow> page_state" where
  "fetchData rt usr outcome s =
     (case usr of
        None \<Rightarrow> s
      | Some u \<Rightarrow>
          (let s1 = s\<lparr>isLoading := True, error := [], debugInfo := NoDebugInfo\<rparr>;
               s2 = (case fetch_try rt u outcome s1 of
                       Inl e \<Rightarrow> fetch_catch rt e s1
                     | Inr s' \<Rightarrow> s')
           in s2\<lparr>isLoading := False\<rparr>))"

section \<open>The derived views\<close>

text \<open>
  \<^verbatim>\<open>stepData.reduce((sum, item) => sum + item.steps, 0)\<close>: the callback is applied from the
  first record on, starting from 0 (\<open>acc\<close> is the callback's \<^verbatim>\<open>sum\<close>); an exception of the
  callback ends the reduction.
\<close>

fun reduce_steps :: "runtime \<Rightarrow> jsval \<Rightarrow> step_record list \<Rightarrow> js_error + jsval" where
  "reduce_steps rt acc [] = Inr acc"
| "reduce_steps rt acc (item # rest) =
     (case js_plus rt acc (steps item) of
        Inl e \<Rightarrow> Inl e
      | Inr acc' \<Rightarrow> reduce_steps rt acc' rest)"

definition total_steps :: "runtime \<Rightarrow> step_record list \<Rightarrow> js_error + jsval" where
  "total_steps rt rs = reduce_steps rt (JNum (Fin 0)) rs"

text \<open>
  The part of the page that holds the statistics:
  \<^verbatim>\<open>
  {isLoading ? (<p>Loading data...</p>)
   : stepData.length === 0 ? (<p>No step data available yet.</p>)
   : (<> ...
      {stepData.length}
      {stepData.reduce((sum, item) => sum + item.steps, 0).toLocaleString()}
      {Math.round(stepData.reduce((sum, item) => sum + item.steps, 0) / stepData.length)}
      ... </>)}
  \<close>
  The three statistics are evaluated in the last branch only. \<open>StatisticsPanel\<close> holds the
  count, the total before it is formatted, and the average shown.
\<close>

datatype panel = LoadingPanel | NoDataPanel | StatisticsPanel nat jsval jsnum

definition statistics_panel :: "runtime \<Rightarrow> page_state \<Rightarrow> js_error + panel" where
  "statistics_panel rt s =
     (if isLoading s then Inr LoadingPanel
      else if length (stepData s) = 0 then Inr NoDataPanel
      else
        (case total_steps rt (stepData s) of
           Inl e \<Rightarrow> Inl e
         | Inr tot \<Rightarrow>
             (case ToNumber rt tot of
                Inl e \<Rightarrow> Inl e
              | Inr t \<Rightarrow>
                  Inr (StatisticsPanel (length (stepData s)) tot
                         (Math_round (double_div rt t (Fin (of_nat (length (stepData s))))))))))"

text \<open>
  Arrays are objects: \<^verbatim>\<open>slice\<close> returns a new array and \<^verbatim>\<open>reverse\<close> reverses the array it
  is called on, in place. A store holds the arrays, an array's reference being its index
  in the store.
\<close>

type_synonym 'a store = "'a list list"

text \<open>
  \<^verbatim>\<open>a.slice(start)\<close>: a new array holding the elements of \<open>a\<close> from index \<open>start\<close> on, a
  negative \<open>start\<close> counting from the end and clamped at the first element.
\<close>

definition Array_slice :: "'a store \<Rightarrow> nat \<Rightarrow> int \<Rightarrow> nat \<times> 'a store" where
  "Array_slice h a start =
     (let len = int (length (h ! a));
          k = (if start < 0 then max (len + start) 0 else min start len)
      in (length h, h @ [drop (nat k) (h ! a)]))"

text \<open>\<^verbatim>\<open>a.reverse()\<close>: reverses \<open>a\<close> in place and returns \<open>a\<close>.\<close>

definition Array_reverse :: "'a store \<Rightarrow> nat \<Rightarrow> nat \<times> 'a store" where
  "Array_reverse h a = (a, h[a := rev (h ! a)])"

text \<open>\<^verbatim>\<open>stepData.slice(-5).reverse()\<close>, the array the recent-activity list is mapped from.\<close>

definition recent_activity :: "'a store \<Rightarrow> nat \<Rightarrow> nat \<times> 'a store" where
  "recent_activity h a = (case Array_slice h a (- 5) of (b, h1) \<Rightarrow> Array_reverse h1 b)"

text \<open>The chart: one label and one value for each record, and the constants of the line.\<close>

record dataset =
  ds_label :: string
  ds_data :: "jsval list"
  borderColor :: string
  backgroundColor :: string
  ds_fill :: bool
  tension :: rat

record chart_data =
  labels :: "string list"
  datasets :: "dataset list"

definition chartData :: "runtime \<Rightarrow> step_record list \<Rightarrow> chart_data" where
  "chartData rt rs =
     \<lparr>labels = map (\<lambda>item. toLocaleTimeString rt (timestamp item)) rs,
      datasets =
        [\<lparr>ds_label = ''Steps Over Time'',
          ds_data = map (\<lambda>item. steps item) rs,
          borderColor = ''rgba(59, 130, 246, 1)'',
          backgroundColor = ''rgba(59, 130, 246, 0.2)'',
          ds_fill = True,
          tension = 4 / 10\<rparr>]\<rparr>"

section \<open>The specification's words, and a sample engine\<close>

text \<open>
  The four timestamp shapes as the specification defines them: an object exposing a
  zero-argument conversion to a calendar instant (a callable \<^verbatim>\<open>toDate\<close> member), an object
  exposing an integer \<^verbatim>\<open>seconds\<close> field, a numeric value, a string.
\<close>

definition spec_exposes_conversion :: "jsval \<Rightarrow> bool" where
  "spec_exposes_conversion ts = (case opt_member ts ''toDate'' of JMethod d \<Rightarrow> True | _ \<Rightarrow> False)"

definition spec_exposes_integer_seconds :: "jsval \<Rightarrow> bool" where
  "spec_exposes_integer_seconds ts =
     (case opt_member ts ''seconds'' of JNum (Fin a) \<Rightarrow> of_int \<lfloor>a\<rfloor> = a | _ \<Rightarrow> False)"

definition spec_defined_shape :: "jsval \<Rightarrow> bool" where
  "spec_defined_shape ts =
     (spec_exposes_conversion ts \<or> spec_exposes_integer_seconds ts
      \<or> (case ts of JNum n \<Rightarrow> True | JStr s \<Rightarrow> True | _ \<Rightarrow> False))"

text \<open>
  What the properties of the statistics need of an engine whose numbers are IEEE-754
  binary64 doubles rounded to nearest: an integer of magnitude at most \<open>2^53\<close> and a half
  of such an integer are doubles, so rounding leaves them as they are; and a result \<open>x\<close>
  between \<open>2^-32\<close> and \<open>2^53\<close> in magnitude is rounded to a finite double at most
  \<open>|x| / 2^53\<close> away.
\<close>

definition binary64_rounding :: "(rat \<Rightarrow> jsnum) \<Rightarrow> bool" where
  "binary64_rounding rd =
     ((\<forall>m::int. \<bar>m\<bar> \<le> 2 ^ 53 \<longrightarrow> rd (of_int m) = Fin (of_int m))
      \<and> (\<forall>m::int. \<bar>m\<bar> \<le> 2 ^ 53 \<longrightarrow> rd (of_int m / 2) = Fin (of_int m / 2))
      \<and> (\<forall>x. 1 / 2 ^ 32 \<le> \<bar>x\<bar> \<and> \<bar>x\<bar> \<le> 2 ^ 53 \<longrightarrow>
             (\<exists>y. rd x = Fin y \<and> \<bar>y - x\<bar> \<le> \<bar>x\<bar> / 2 ^ 53)))"

text \<open>
  Every sum the reduction forms, from the starting value \<open>a\<close> on, is at most \<open>2^53\<close> in
  magnitude.
\<close>

fun partial_sums_exact :: "int \<Rightarrow> int list \<Rightarrow> bool" where
  "partial_sums_exact a [] = (\<bar>a\<bar> \<le> 2 ^ 53)"
| "partial_sums_exact a (n # ns) = (\<bar>a\<bar> \<le> 2 ^ 53 \<and> partial_sums_exact (a + n) ns)"

text \<open>
  An engine for the concrete runs below: a clock starting at 1730000000000 ms, a parser
  that knows two ISO strings, a formatter that knows their labels, and an arithmetic that
  rounds \<open>2^53 + 1\<close> to \<open>2^53\<close>, as binary64 does, the other results of the runs being
  doubles already.
\<close>

definition example_runtime :: runtime where
  "example_runtime =
     \<lparr>clock = (\<lambda>i. 1730000000000 + int i),
      Date_parse = (\<lambda>s. if s = ''2024-01-01T10:00:00Z'' then Date 1704103200000
                         else if s = ''2024-01-01T09:00:00Z'' then Date 1704099600000
                         else InvalidDate),
      StringToNumber = (\<lambda>s. if s = ''5'' then Fin 5 else NaN),
      toLocaleTimeString = (\<lambda>d. case d of
                                   InvalidDate \<Rightarrow> ''Invalid Date''
                                 | Date t \<Rightarrow> (if t = 1704103200000 then ''10:00 AM''
                                              else if t = 1704099600000 then ''09:00 AM''
                                              else ''12:00 AM'')),
      TypeError_message = ''docData.timestamp.toDate is not a function'',
      round_double = (\<lambda>x. if x = 9007199254740993 then Fin 9007199254740992 else Fin x),
      NumberToString = (\<lambda>n. if n = Fin 0 then ''0'' else if n = Fin 100 then ''100'' else ''NaN''),
      FunctionToString = ''function () { [native code] }''\<rparr>"

section \<open>Properties of the normalization\<close>

subsection \<open>The step count\<close>

text \<open>
  Claim C1 says that a present \<^verbatim>\<open>steps\<close> field is always the resolved step count. It is
  not: \<^verbatim>\<open>||\<close> passes over a falsy value, so a document \<^verbatim>\<open>{steps: 0, stepCount: 7}\<close>
  resolves to 7.
\<close>

theorem zero_steps_falls_back_to_stepCount:
  "doc_steps \<lparr>doc_id = ''a'', doc_steps = JNum (Fin 0), doc_stepCount = JNum (Fin 7),
              doc_timestamp = JNum (Fin 1700000000000)\<rparr> = JNum (Fin 0)
   \<and> resolve_steps \<lparr>doc_id = ''a'', doc_steps = JNum (Fin 0), doc_stepCount = JNum (Fin 7),
                    doc_timestamp = JNum (Fin 1700000000000)\<rparr> = JNum (Fin 7)"
  by (simp add: resolve_steps_def js_or_def)

text \<open>
  Claim C1, as the code has it: a \<^verbatim>\<open>steps\<close> field that is present and truthy is the
  resolved step count; when \<^verbatim>\<open>steps\<close> is absent or falsy and \<^verbatim>\<open>stepCount\<close> is present and
  truthy, the resolved step count is \<^verbatim>\<open>stepCount\<close>; when both are absent or falsy, it is 0.
  An absent field is \<^verbatim>\<open>undefined\<close>, which is falsy.
\<close>

theorem resolve_steps_cases:
  "(truthy (doc_steps d) \<longrightarrow> resolve_steps d = doc_steps d)
   \<and> (\<not> truthy (doc_steps d) \<and> truthy (doc_stepCount d)
          \<longrightarrow> resolve_steps d = doc_stepCount d)
   \<and> (\<not> truthy (doc_steps d) \<and> \<not> truthy (doc_stepCount d)
          \<longrightarrow> resolve_steps d = JNum (Fin 0))"
  by (simp add: resolve_steps_def js_or_def)

text \<open>
  Claim C1, concrete runs: \<^verbatim>\<open>{steps: 100}\<close> resolves to 100, \<^verbatim>\<open>{stepCount: 200}\<close> to 200
  and a document with neither field to 0.
\<close>

theorem resolve_steps_cases_witness:
  "resolve_steps \<lparr>doc_id = ''a'', doc_steps = JNum (Fin 100), doc_stepCount = JUndefined,
                  doc_timestamp = JStr ''2024-01-01T10:00:00Z''\<rparr> = JNum (Fin 100)
   \<and> resolve_steps \<lparr>doc_id = ''b'', doc_steps = JUndefined, doc_stepCount = JNum (Fin 200),
                    doc_timestamp = JNum (Fin 1700000000000)\<rparr> = JNum (Fin 200)
   \<and> resolve_steps \<lparr>doc_id = ''c'', doc_steps = JUndefined, doc_stepCount = JUndefined,
                    doc_timestamp = JNull\<rparr> = JNum (Fin 0)"
proof -
  let ?a = "\<lparr>doc_id = ''a'', doc_steps = JNum (Fin 100), doc_stepCount = JUndefined,
             doc_timestamp = JStr ''2024-01-01T10:00:00Z''\<rparr>"
  let ?b = "\<lparr>doc_id = ''b'', doc_steps = JUndefined, doc_stepCount = JNum (Fin 200),
             doc_timestamp = JNum (Fin 1700000000000)\<rparr>"
  let ?c = "\<lparr>doc_id = ''c'', doc_steps = JUndefined, doc_stepCount = JUndefined,
             doc_timestamp = JNull\<rparr>"
  have a: "truthy (doc_steps ?a)" by simp
  have b: "\<not> truthy (doc_steps ?b) \<and> truthy (doc_stepCount ?b)" by simp
  have c: "\<not> truthy (doc_steps ?c) \<and> \<not> truthy (doc_stepCount ?c)" by simp
  have ra: "resolve_steps ?a = doc_steps ?a"
    using a resolve_steps_cases [of ?a] by blast
  have rb: "resolve_steps ?b = doc_stepCount ?b"
    using b resolve_steps_cases [of ?b] by blast
  have rc: "resolve_steps ?c = JNum (Fin 0)"
    using c resolve_steps_cases [of ?c] by blast
  show ?thesis
    using ra rb rc by simp
qed

subsection \<open>The instant\<close>

lemma ToInteger_of_int: "ToInteger (of_int k) = k"
  by (simp add: ToInteger_def)

lemma opt_member_number:
  "opt_member ts name = JNum n \<Longrightarrow> member ts name = Inr (JNum n)"
  by (cases ts) (auto split: option.splits)

text \<open>
  Claim C2 says that an integer \<^verbatim>\<open>seconds\<close> member always gives the instant
  \<open>seconds \<times> 1000\<close>. Three documents show otherwise. With \<^verbatim>\<open>{seconds: 0}\<close> the test
  \<^verbatim>\<open>docData.timestamp?.seconds\<close> is falsy and the instant is the clock's. With
  \<^verbatim>\<open>{seconds: 10000000000000}\<close> the product is beyond the range of \<^verbatim>\<open>Date\<close> and the
  instant is invalid. With \<^verbatim>\<open>{toDate: 5, seconds: 1700000000}\<close> the first test is truthy
  and the call of a number raises.
\<close>

theorem seconds_member_not_always_converted:
  "resolve_timestamp example_runtime 1730000000000 (JObj [(''seconds'', JNum (Fin 0))])
     = Inr (Date 1730000000000)
   \<and> resolve_timestamp example_runtime 1730000000000
       (JObj [(''seconds'', JNum (Fin 10000000000000))])
     = Inr InvalidDate
   \<and> resolve_timestamp example_runtime 1730000000000
       (JObj [(''toDate'', JNum (Fin 5)), (''seconds'', JNum (Fin 1700000000))])
     = Inl TypeError"
  by (simp add: resolve_timestamp_def)

text \<open>
  Claim C2, as the code has it: for every document whose timestamp has no truthy
  \<^verbatim>\<open>toDate\<close> member and a \<^verbatim>\<open>seconds\<close> member that is a non-zero integer \<open>s\<close> with
  \<open>s \<times> 1000\<close> in the range of \<^verbatim>\<open>Date\<close>, the record's instant is \<open>s \<times> 1000\<close>
  milliseconds after the epoch.
\<close>

theorem seconds_member_converted:
  assumes "\<not> truthy (opt_member (doc_timestamp d) ''toDate'')"
    and "opt_member (doc_timestamp d) ''seconds'' = JNum (Fin (of_int s))"
    and "s \<noteq> 0"
    and "\<bar>s * 1000\<bar> \<le> 8640000000000000"
  shows "normalize_doc rt now d =
           Inr \<lparr>rec_id = doc_id d, steps = resolve_steps d, timestamp = Date (s * 1000),
                originalTimestamp = doc_timestamp d\<rparr>"
proof -
  have m: "member (doc_timestamp d) ''seconds'' = Inr (JNum (Fin (of_int s)))"
    using assms(2) by (rule opt_member_number)
  have e: "(of_int s :: rat) * 1000 = of_int (s * 1000)" by simp
  have b: "\<bar>of_int (s * 1000) :: rat\<bar> \<le> 8640000000000000"
    using assms(4) by (metis of_int_abs of_int_le_iff of_int_numeral)
  have "js_mul (Fin (of_int s)) (Fin 1000) = Fin (of_int (s * 1000))"
    by (simp only: js_mul.simps e)
  then have "new_Date (js_mul (Fin (of_int s)) (Fin 1000)) = Date (s * 1000)"
    using b by (simp only: new_Date.simps ToInteger_of_int if_True)
  then show ?thesis
    using assms(1,2,3) m by (simp add: normalize_doc_def resolve_timestamp_def)
qed

text \<open>Claim C2, concrete run: \<^verbatim>\<open>{seconds: 1700000000}\<close> gives 1700000000000 ms.\<close>

theorem seconds_member_converted_witness:
  "normalize_doc example_runtime 1730000000000
     \<lparr>doc_id = ''a'', doc_steps = JNum (Fin 10), doc_stepCount = JUndefined,
      doc_timestamp = JObj [(''seconds'', JNum (Fin 1700000000))]\<rparr>
   = Inr \<lparr>rec_id = ''a'', steps = JNum (Fin 10), timestamp = Date 1700000000000,
          originalTimestamp = JObj [(''seconds'', JNum (Fin 1700000000))]\<rparr>"
proof -
  let ?d = "\<lparr>doc_id = ''a'', doc_steps = JNum (Fin 10), doc_stepCount = JUndefined,
             doc_timestamp = JObj [(''seconds'', JNum (Fin 1700000000))]\<rparr>"
  have h1: "\<not> truthy (opt_member (doc_timestamp ?d) ''toDate'')" by simp
  have h2: "opt_member (doc_timestamp ?d) ''seconds'' = JNum (Fin (of_int 1700000000))" by simp
  have h3: "(1700000000::int) \<noteq> 0" by simp
  have h4: "\<bar>(1700000000::int) * 1000\<bar> \<le> 8640000000000000" by simp
  show ?thesis
    using seconds_member_converted [OF h1 h2 h3 h4, of example_runtime 1730000000000]
    by (simp add: resolve_steps_def js_or_def)
qed

text \<open>
  A string timestamp is always resolved by the parser, also when the string does not
  parse, which gives the invalid date and not the clock's instant.
\<close>

lemma string_timestamp_reaches_parser:
  "doc_timestamp d = JStr s \<Longrightarrow>
     normalize_doc rt now d =
       Inr \<lparr>rec_id = doc_id d, steps = resolve_steps d, timestamp = Date_parse rt s,
            originalTimestamp = JStr s\<rparr>"
  by (simp add: normalize_doc_def resolve_timestamp_def)

text \<open>
  When the clock decides the result, the timestamp has none of the specification's four
  shapes, or its \<^verbatim>\<open>seconds\<close> member is the number 0.
\<close>

lemma clock_decides_only_without_shape_or_zero_seconds:
  "resolve_timestamp rt now ts \<noteq> resolve_timestamp rt now' ts
   \<Longrightarrow> \<not> spec_defined_shape ts \<or> opt_member ts ''seconds'' = JNum (Fin 0)"
proof -
  assume differ: "resolve_timestamp rt now ts \<noteq> resolve_timestamp rt now' ts"
  have no_toDate: "\<not> truthy (opt_member ts ''toDate'')"
    using differ by (auto simp: resolve_timestamp_def)
  have no_seconds: "\<not> truthy (opt_member ts ''seconds'')"
    using differ no_toDate by (auto simp: resolve_timestamp_def)
  have no_prim: "(case ts of JNum n \<Rightarrow> True | JStr s \<Rightarrow> True | _ \<Rightarrow> False) = False"
    using differ no_toDate no_seconds
    by (cases ts) (simp_all add: resolve_timestamp_def)
  have no_conv: "\<not> spec_exposes_conversion ts"
    using no_toDate
    by (cases "opt_member ts ''toDate''") (simp_all add: spec_exposes_conversion_def)
  show ?thesis
  proof (cases "opt_member ts ''seconds'' = JNum (Fin 0)")
    case True
    then show ?thesis by simp
  next
    case False
    have "\<not> spec_exposes_integer_seconds ts"
    proof (cases "opt_member ts ''seconds''")
      case (JNum n)
      then show ?thesis
        using no_seconds False
        by (cases n) (simp_all add: spec_exposes_integer_seconds_def)
    qed (simp_all add: spec_exposes_integer_seconds_def)
    then show ?thesis
      using no_conv no_prim by (simp add: spec_defined_shape_def)
  qed
qed

text \<open>
  Claim C10 says that the current-time fallback fires only for a timestamp that has none
  of the four defined shapes. The map \<^verbatim>\<open>{seconds: 0, nanoseconds: 0}\<close>, the epoch as a
  timestamp-like object, exposes an integer \<^verbatim>\<open>seconds\<close> field; the test
  \<^verbatim>\<open>docData.timestamp?.seconds\<close> is falsy for it, and its record gets the clock's instant.
\<close>

theorem zero_seconds_takes_the_fallback:
  "spec_defined_shape (JObj [(''seconds'', JNum (Fin 0)), (''nanoseconds'', JNum (Fin 0))])
   \<and> normalize example_runtime
       [\<lparr>doc_id = ''a'', doc_steps = JNum (Fin 10), doc_stepCount = JUndefined,
         doc_timestamp = JObj [(''seconds'', JNum (Fin 0)), (''nanoseconds'', JNum (Fin 0))]\<rparr>]
     = Inr [\<lparr>rec_id = ''a'', steps = JNum (Fin 10), timestamp = Date 1730000000000,
             originalTimestamp =
               JObj [(''seconds'', JNum (Fin 0)), (''nanoseconds'', JNum (Fin 0))]\<rparr>]"
  by (simp add: spec_defined_shape_def spec_exposes_integer_seconds_def normalize_def
        normalize_doc_def resolve_timestamp_def resolve_steps_def js_or_def example_runtime_def)

subsection \<open>Completion and length\<close>

lemma normalize_from_length:
  "normalize_from rt i ds = Inr rs \<Longrightarrow> length rs = length ds"
  by (induction ds arbitrary: i rs) (auto split: sum.splits)

lemma resolve_timestamp_raises_any_clock:
  "isl (resolve_timestamp rt now ts) = isl (resolve_timestamp rt now' ts)"
  by (auto simp: resolve_timestamp_def split: jsval.splits sum.splits)

text \<open>
  When no document's timestamp makes \<open>resolve_timestamp\<close> raise, the normalization
  completes, with one record for each document, in document order.
\<close>

lemma normalize_from_completes:
  "\<forall>d\<in>set ds. \<not> isl (resolve_timestamp rt 0 (doc_timestamp d))
   \<Longrightarrow> \<exists>rs. normalize_from rt i ds = Inr rs \<and> map rec_id rs = map doc_id ds"
proof (induction ds arbitrary: i)
  case Nil
  then show ?case by simp
next
  case (Cons d ds)
  have "\<not> isl (resolve_timestamp rt (clock rt i) (doc_timestamp d))"
    using Cons.prems resolve_timestamp_raises_any_clock [of rt "clock rt i" _ 0] by simp
  then obtain t where t: "resolve_timestamp rt (clock rt i) (doc_timestamp d) = Inr t"
    by (cases "resolve_timestamp rt (clock rt i) (doc_timestamp d)") auto
  obtain rs where rs: "normalize_from rt (Suc i) ds = Inr rs" "map rec_id rs = map doc_id ds"
    using Cons.IH [of "Suc i"] Cons.prems by auto
  show ?case using t rs by (simp add: normalize_doc_def)
qed

text \<open>
  Each record of a completed normalization is the record of the document at its index,
  made with the clock read at that index.
\<close>

lemma normalize_from_nth:
  "normalize_from rt i ds = Inr rs \<Longrightarrow> k < length ds
   \<Longrightarrow> normalize_doc rt (clock rt (i + k)) (ds ! k) = Inr (rs ! k)"
proof (induction ds arbitrary: i rs k)
  case Nil
  then show ?case by simp
next
  case (Cons d ds)
  from Cons.prems(1) obtain r rs' where
    r: "normalize_doc rt (clock rt i) d = Inr r"
    and rs': "normalize_from rt (Suc i) ds = Inr rs'"
    and rs: "rs = r # rs'"
    by (auto split: sum.splits)
  show ?case
  proof (cases k)
    case 0
    then show ?thesis using r rs by simp
  next
    case (Suc j)
    then have "normalize_doc rt (clock rt (Suc i + j)) (ds ! j) = Inr (rs' ! j)"
      using Cons.IH [OF rs'] Cons.prems(2) by simp
    then show ?thesis using Suc rs by simp
  qed
qed

text \<open>
  Claim C3 says that every list of documents gives a list of records of the same length,
  a document of unknown timestamp shape being emitted with the clock's instant. A map
  whose \<^verbatim>\<open>toDate\<close> member is a string has none of the four shapes, yet the first test is
  truthy, the call raises, and the exception ends \<^verbatim>\<open>map\<close>: of these two documents no record
  is produced.
\<close>

theorem normalize_emits_nothing_on_uncallable_toDate:
  "normalize example_runtime
     [\<lparr>doc_id = ''a'', doc_steps = JNum (Fin 10), doc_stepCount = JUndefined,
       doc_timestamp = JNum (Fin 1700000000000)\<rparr>,
      \<lparr>doc_id = ''b'', doc_steps = JNum (Fin 20), doc_stepCount = JUndefined,
       doc_timestamp = JObj [(''toDate'', JStr ''2024-01-01''),
                             (''seconds'', JNum (Fin 1704067200))]\<rparr>]
   = Inl TypeError"
  by (simp add: normalize_def normalize_doc_def resolve_timestamp_def)

text \<open>
  Claim C8 says that the normalization never raises, naming a timestamp whose \<^verbatim>\<open>toDate\<close>
  member is present but not callable. For the map \<^verbatim>\<open>{toDate: true}\<close> it raises a
  \<^verbatim>\<open>TypeError\<close>.
\<close>

theorem normalize_raises_on_uncallable_toDate:
  "normalize example_runtime
     [\<lparr>doc_id = ''a'', doc_steps = JNum (Fin 10), doc_stepCount = JUndefined,
       doc_timestamp = JObj [(''toDate'', JBool True)]\<rparr>]
   = Inl TypeError"
  by (simp add: normalize_def normalize_doc_def resolve_timestamp_def)

section \<open>Properties of the sort\<close>

lemma mset_sort_insert: "mset (sort_insert c x ys) = add_mset x (mset ys)"
  by (induction ys) auto

lemma mset_Array_sort: "mset (Array_sort c xs) = mset xs"
  unfolding Array_sort_def by (induction xs) (auto simp: mset_sort_insert)

lemma set_sort_insert: "set (sort_insert c x ys) = insert x (set ys)"
  by (induction ys) auto

lemma compare_valid:
  "timestamp a = Date s \<Longrightarrow> timestamp b = Date t
   \<Longrightarrow> js_positive (compare_timestamps a b) = (t < s)"
  by (simp add: compare_timestamps_def js_sub_def)

lemma valid_dateE: "valid_date d \<Longrightarrow> \<exists>t. d = Date t"
  by (cases d) (auto simp: valid_date_def)

lemma chronological_sort_insert:
  assumes "valid_date (timestamp x)" and "\<forall>y\<in>set ys. valid_date (timestamp y)"
    and "chronological ys"
  shows "chronological (sort_insert compare_timestamps x ys)"
  using assms
proof (induction ys)
  case Nil
  then show ?case by (simp add: chronological_def)
next
  case (Cons y ys)
  obtain s where s: "timestamp x = Date s" using Cons.prems(1) valid_dateE by blast
  obtain t where t: "timestamp y = Date t" using Cons.prems(2) valid_dateE by auto
  have tail: "chronological ys" using Cons.prems(3) by (simp add: chronological_def)
  have after_y: "\<forall>z\<in>set ys. js_le (date_to_number (timestamp y)) (date_to_number (timestamp z))"
    using Cons.prems(3) by (simp add: chronological_def)
  show ?case
  proof (cases "t < s")
    case True
    have ih: "chronological (sort_insert compare_timestamps x ys)"
      using Cons.IH Cons.prems tail by simp
    show ?thesis
      using True ih after_y s t
      by (simp add: chronological_def compare_valid [OF s t] set_sort_insert)
  next
    case False
    have "\<forall>z\<in>set ys. js_le (date_to_number (timestamp x)) (date_to_number (timestamp z))"
    proof
      fix z assume z: "z \<in> set ys"
      then obtain r where r: "timestamp z = Date r" using Cons.prems(2) valid_dateE by auto
      with after_y z t s False
      show "js_le (date_to_number (timestamp x)) (date_to_number (timestamp z))"
        by fastforce
    qed
    then show ?thesis
      using False Cons.prems(3) s t
      by (simp add: chronological_def compare_valid [OF s t])
  qed
qed

lemma chronological_Array_sort:
  "\<forall>r\<in>set rs. valid_date (timestamp r) \<Longrightarrow> chronological (Array_sort compare_timestamps rs)"
proof (induction rs)
  case Nil
  then show ?case by (simp add: Array_sort_def chronological_def)
next
  case (Cons r rs)
  have "set (Array_sort compare_timestamps rs) = set rs"
    by (metis mset_Array_sort set_mset_mset)
  then show ?case
    using Cons chronological_sort_insert [of r "Array_sort compare_timestamps rs"]
    by (simp add: Array_sort_def)
qed

text \<open>A record moves behind another only when its instant is strictly later.\<close>

lemma compare_same_instant:
  "timestamp x = timestamp y \<Longrightarrow> \<not> js_positive (compare_timestamps x y)"
  by (cases "timestamp y") (simp_all add: compare_timestamps_def js_sub_def)

lemma filter_sort_insert:
  "filter (\<lambda>r. timestamp r = t) (sort_insert compare_timestamps x ys)
   = filter (\<lambda>r. timestamp r = t) (x # ys)"
  by (induction ys) (auto dest: compare_same_instant)

lemma stable_Array_sort:
  "filter (\<lambda>r. timestamp r = t) (Array_sort compare_timestamps rs)
   = filter (\<lambda>r. timestamp r = t) rs"
  unfolding Array_sort_def
  by (induction rs) (simp_all add: filter_sort_insert)

text \<open>
  No arrangement of two or more records is non-decreasing once one of them has an invalid
  date: every comparison with \<open>NaN\<close> is false. So the failure below does not depend on how
  the engine sorts.
\<close>

lemma invalid_date_never_chronological:
  assumes "r \<in> set rs" and "timestamp r = InvalidDate" and "2 \<le> length rs"
  shows "\<not> chronological rs"
proof
  assume c: "chronological rs"
  obtain i where i: "i < length rs" "rs ! i = r"
    using assms(1) by (auto simp: in_set_conv_nth)
  obtain j where j: "j < length rs" "j \<noteq> i"
  proof (cases "i = 0")
    case True
    then show ?thesis using assms(3) that [of 1] by simp
  next
    case False
    then show ?thesis using assms(3) that [of 0] by (cases rs) auto
  qed
  have "i < j \<or> j < i" using j by auto
  then show False
  proof
    assume "i < j"
    then have "js_le (date_to_number (timestamp (rs ! i))) (date_to_number (timestamp (rs ! j)))"
      using c j(1) unfolding chronological_def sorted_wrt_iff_nth_less by blast
    then show False using i(2) assms(2) by simp
  next
    assume "j < i"
    then have "js_le (date_to_number (timestamp (rs ! j))) (date_to_number (timestamp (rs ! i)))"
      using c i(1) unfolding chronological_def sorted_wrt_iff_nth_less by blast
    then show False
      using i(2) assms(2) by (cases "date_to_number (timestamp (rs ! j))") simp_all
  qed
qed

text \<open>
  Claim C4 says that the sort of every sequence of records is non-decreasing in the
  instant. An invalid date (an unparseable string gives one) compares as \<open>NaN\<close> with every
  other date, so the record with instant 5, the record with the invalid date and the
  record with instant 3 stay in this order: the result is not non-decreasing.
\<close>

theorem invalid_date_breaks_order:
  "sort_by_timestamp
     [\<lparr>rec_id = ''a'', steps = JNum (Fin 1), timestamp = Date 5, originalTimestamp = JNum (Fin 5)\<rparr>,
      \<lparr>rec_id = ''b'', steps = JNum (Fin 2), timestamp = InvalidDate, originalTimestamp = JStr ''soon''\<rparr>,
      \<lparr>rec_id = ''c'', steps = JNum (Fin 3), timestamp = Date 3, originalTimestamp = JNum (Fin 3)\<rparr>]
   = [\<lparr>rec_id = ''a'', steps = JNum (Fin 1), timestamp = Date 5, originalTimestamp = JNum (Fin 5)\<rparr>,
      \<lparr>rec_id = ''b'', steps = JNum (Fin 2), timestamp = InvalidDate, originalTimestamp = JStr ''soon''\<rparr>,
      \<lparr>rec_id = ''c'', steps = JNum (Fin 3), timestamp = Date 3, originalTimestamp = JNum (Fin 3)\<rparr>]
   \<and> \<not> chronological (sort_by_timestamp
     [\<lparr>rec_id = ''a'', steps = JNum (Fin 1), timestamp = Date 5, originalTimestamp = JNum (Fin 5)\<rparr>,
      \<lparr>rec_id = ''b'', steps = JNum (Fin 2), timestamp = InvalidDate, originalTimestamp = JStr ''soon''\<rparr>,
      \<lparr>rec_id = ''c'', steps = JNum (Fin 3), timestamp = Date 3, originalTimestamp = JNum (Fin 3)\<rparr>])"
  by (simp add: sort_by_timestamp_def Array_sort_def compare_timestamps_def js_sub_def
        chronological_def)

text \<open>
  Claim C4, as the code has it: for every sequence of records whose instants are all
  valid, the sort gives a sequence that is non-decreasing in the instant, is a permutation
  of the input, and keeps the records of equal instant in their input order.
\<close>

theorem sort_by_timestamp_valid:
  assumes "\<forall>r\<in>set rs. valid_date (timestamp r)"
  shows "chronological (sort_by_timestamp rs)
         \<and> mset (sort_by_timestamp rs) = mset rs
         \<and> (\<forall>t. filter (\<lambda>r. timestamp r = t) (sort_by_timestamp rs)
                 = filter (\<lambda>r. timestamp r = t) rs)"
  using assms
  by (simp add: sort_by_timestamp_def chronological_Array_sort mset_Array_sort stable_Array_sort)

text \<open>
  Claim C4, concrete run: of three records at 10:00, 09:00 and 10:00 the one at 09:00
  comes first and the two at 10:00 keep their order.
\<close>

theorem sort_by_timestamp_valid_witness:
  "sort_by_timestamp
     [\<lparr>rec_id = ''a'', steps = JNum (Fin 100), timestamp = Date 1704103200000,
       originalTimestamp = JStr ''2024-01-01T10:00:00Z''\<rparr>,
      \<lparr>rec_id = ''b'', steps = JNum (Fin 50), timestamp = Date 1704099600000,
       originalTimestamp = JStr ''2024-01-01T09:00:00Z''\<rparr>,
      \<lparr>rec_id = ''c'', steps = JNum (Fin 70), timestamp = Date 1704103200000,
       originalTimestamp = JNum (Fin 1704103200000)\<rparr>]
   = [\<lparr>rec_id = ''b'', steps = JNum (Fin 50), timestamp = Date 1704099600000,
       originalTimestamp = JStr ''2024-01-01T09:00:00Z''\<rparr>,
      \<lparr>rec_id = ''a'', steps = JNum (Fin 100), timestamp = Date 1704103200000,
       originalTimestamp = JStr ''2024-01-01T10:00:00Z''\<rparr>,
      \<lparr>rec_id = ''c'', steps = JNum (Fin 70), timestamp = Date 1704103200000,
       originalTimestamp = JNum (Fin 1704103200000)\<rparr>]
   \<and> chronological
       [\<lparr>rec_id = ''b'', steps = JNum (Fin 50), timestamp = Date 1704099600000,
         originalTimestamp = JStr ''2024-01-01T09:00:00Z''\<rparr>,
        \<lparr>rec_id = ''a'', steps = JNum (Fin 100), timestamp = Date 1704103200000,
         originalTimestamp = JStr ''2024-01-01T10:00:00Z''\<rparr>,
        \<lparr>rec_id = ''c'', steps = JNum (Fin 70), timestamp = Date 1704103200000,
         originalTimestamp = JNum (Fin 1704103200000)\<rparr>]"
proof -
  let ?rs = "[\<lparr>rec_id = ''a'', steps = JNum (Fin 100), timestamp = Date 1704103200000,
               originalTimestamp = JStr ''2024-01-01T10:00:00Z''\<rparr>,
              \<lparr>rec_id = ''b'', steps = JNum (Fin 50), timestamp = Date 1704099600000,
               originalTimestamp = JStr ''2024-01-01T09:00:00Z''\<rparr>,
              \<lparr>rec_id = ''c'', steps = JNum (Fin 70), timestamp = Date 1704103200000,
               originalTimestamp = JNum (Fin 1704103200000)\<rparr>]"
  have valid: "\<forall>r\<in>set ?rs. valid_date (timestamp r)" by (simp add: valid_date_def)
  have sorted_rs: "sort_by_timestamp ?rs =
      [\<lparr>rec_id = ''b'', steps = JNum (Fin 50), timestamp = Date 1704099600000,
        originalTimestamp = JStr ''2024-01-01T09:00:00Z''\<rparr>,
       \<lparr>rec_id = ''a'', steps = JNum (Fin 100), timestamp = Date 1704103200000,
        originalTimestamp = JStr ''2024-01-01T10:00:00Z''\<rparr>,
       \<lparr>rec_id = ''c'', steps = JNum (Fin 70), timestamp = Date 1704103200000,
        originalTimestamp = JNum (Fin 1704103200000)\<rparr>]"
    by (simp add: sort_by_timestamp_def Array_sort_def compare_timestamps_def js_sub_def)
  show ?thesis
    using sort_by_timestamp_valid [OF valid, THEN conjunct1] sorted_rs by simp
qed

section \<open>Properties of the derived views\<close>

subsection \<open>Statistics\<close>

lemma partial_sums_exact_start: "partial_sums_exact a ns \<Longrightarrow> \<bar>a\<bar> \<le> 2 ^ 53"
  by (cases ns) simp_all

text \<open>The sum of two integers is exact as long as it stays within \<open>2^53\<close>.\<close>

lemma js_plus_integers:
  assumes "binary64_rounding (round_double rt)" and "\<bar>a + b\<bar> \<le> 2 ^ 53"
  shows "js_plus rt (JNum (Fin (of_int a))) (JNum (Fin (of_int b)))
         = Inr (JNum (Fin (of_int (a + b))))"
proof -
  have "round_double rt (of_int (a + b)) = Fin (of_int (a + b))"
    using assms unfolding binary64_rounding_def by blast
  then have "round_double rt (of_int a + of_int b) = Fin (of_int (a + b))"
    by simp
  then show ?thesis
    by (simp add: js_plus_def del: of_int_add)
qed

lemma reduce_steps_integers:
  assumes "binary64_rounding (round_double rt)"
  shows "map steps rs = map (\<lambda>i. JNum (Fin (of_int i))) ns \<Longrightarrow> partial_sums_exact a ns
         \<Longrightarrow> reduce_steps rt (JNum (Fin (of_int a))) rs
             = Inr (JNum (Fin (of_int (a + sum_list ns))))"
proof (induction ns arbitrary: a rs)
  case Nil
  then show ?case by simp
next
  case (Cons n ns)
  from Cons.prems(1) obtain r rs' where rs: "rs = r # rs'"
    and r: "steps r = JNum (Fin (of_int n))"
    and rest: "map steps rs' = map (\<lambda>i. JNum (Fin (of_int i))) ns"
    by (cases rs) auto
  have next_sum: "partial_sums_exact (a + n) ns" using Cons.prems(2) by simp
  then have "\<bar>a + n\<bar> \<le> 2 ^ 53" by (rule partial_sums_exact_start)
  then have "js_plus rt (JNum (Fin (of_int a))) (steps r) = Inr (JNum (Fin (of_int (a + n))))"
    using assms r js_plus_integers by simp
  then show ?case
    using Cons.IH [OF rest next_sum] rs by (simp add: add.assoc)
qed

text \<open>
  The quotient of an integer total below \<open>2^52\<close> in magnitude by a count is rounded to a
  double that \<^verbatim>\<open>Math.round\<close> takes to the same integer as the exact quotient: a quotient
  that is a half of an integer is a double; any other lies at least \<open>1 / (2 c)\<close> from the
  next half-integer, more than the rounding moves it.
\<close>

lemma mean_rounding:
  assumes rd: "binary64_rounding rd"
    and c: "0 < c" "c < 2 ^ 32"
    and t: "\<bar>t\<bar> < 2 ^ 52"
  shows "\<exists>y. rd (of_int t / of_nat c) = Fin y
             \<and> \<lfloor>y + 1 / 2\<rfloor> = \<lfloor>(of_int t / of_nat c :: rat) + 1 / 2\<rfloor>"
proof (cases "int c dvd 2 * t")
  case True
  then obtain m where m: "2 * t = int c * m" by (auto simp: dvd_def)
  have cpos: "(of_nat c :: rat) > 0" using c(1) by simp
  have "(of_int (2 * t) :: rat) = of_int (int c * m)" using m by simp
  then have "(2 * of_int t :: rat) = of_nat c * of_int m" by simp
  then have x: "(of_int t / of_nat c :: rat) = of_int m / 2"
    using cpos by (simp add: field_simps)
  have "1 * \<bar>m\<bar> \<le> int c * \<bar>m\<bar>"
    using c(1) by (intro mult_right_mono) simp_all
  then have "\<bar>m\<bar> \<le> \<bar>int c * m\<bar>"
    by (simp add: abs_mult)
  also have "\<dots> = \<bar>2 * t\<bar>" using m by simp
  also have "\<dots> = 2 * \<bar>t\<bar>" by (simp add: abs_mult)
  also have "\<dots> \<le> 2 ^ 53" using t by simp
  finally have "\<bar>m\<bar> \<le> 2 ^ 53" .
  then have "rd (of_int m / 2) = Fin (of_int m / 2)"
    using rd unfolding binary64_rounding_def by blast
  then have "rd (of_int t / of_nat c) = Fin (of_int t / of_nat c)"
    by (simp only: x)
  then show ?thesis by blast
next
  case False
  define x :: rat where "x = of_int t / of_nat c"
  define k where "k = \<lfloor>x + 1 / 2\<rfloor>"
  have cpos: "(of_nat c :: rat) > 0" using c(1) by simp
  have tnz: "t \<noteq> 0" using False by auto
  have absx: "\<bar>x\<bar> = of_int \<bar>t\<bar> / of_nat c"
    by (simp add: x_def)
  have "(1 :: rat) \<le> of_int \<bar>t\<bar>" using tnz by (simp add: Ints_nonzero_abs_ge1)
  then have "1 / of_nat c \<le> \<bar>x\<bar>"
    using cpos by (simp add: absx divide_right_mono)
  moreover have "(1 :: rat) / 2 ^ 32 \<le> 1 / of_nat c"
  proof -
    have "(of_nat c :: rat) \<le> of_nat (2 ^ 32)" using c(2) by (simp only: of_nat_le_iff)
    then have "(of_nat c :: rat) \<le> 2 ^ 32" by simp
    then show ?thesis using cpos by (simp add: frac_le)
  qed
  ultimately have lo: "1 / 2 ^ 32 \<le> \<bar>x\<bar>" by linarith
  have c1: "(1 :: rat) \<le> of_nat c" using c(1) by simp
  have "of_int \<bar>t\<bar> / of_nat c \<le> (of_int \<bar>t\<bar> :: rat) / 1"
    using c1 by (intro divide_left_mono) simp_all
  then have "of_int \<bar>t\<bar> / of_nat c \<le> (of_int \<bar>t\<bar> :: rat)" by simp
  moreover have "(of_int \<bar>t\<bar> :: rat) \<le> 2 ^ 53"
  proof -
    have "\<bar>t\<bar> \<le> 2 ^ 53" using t by simp
    then have "(of_int \<bar>t\<bar> :: rat) \<le> of_int (2 ^ 53)" by (simp only: of_int_le_iff)
    then show ?thesis by simp
  qed
  ultimately have hi: "\<bar>x\<bar> \<le> 2 ^ 53" using absx by linarith
  obtain y where y: "rd x = Fin y" and err: "\<bar>y - x\<bar> \<le> \<bar>x\<bar> / 2 ^ 53"
    using rd lo hi unfolding binary64_rounding_def by blast
  have small: "\<bar>x\<bar> / 2 ^ 53 < 1 / (2 * of_nat c)"
  proof -
    have "(of_int \<bar>t\<bar> :: rat) < of_int (2 ^ 52)" using t by (simp only: of_int_less_iff)
    then have "(of_int \<bar>t\<bar> :: rat) < 2 ^ 52" by simp
    then have "(of_int \<bar>t\<bar> :: rat) * 2 < 2 ^ 53" by simp
    then show ?thesis using cpos by (simp add: absx field_simps)
  qed
  define u where "u = 2 * t + int c - 2 * k * int c"
  have ux: "x + 1 / 2 - of_int k = of_int u / (2 * of_nat c)"
    using cpos by (simp add: u_def x_def field_simps)
  have "of_int k \<le> x + 1 / 2" unfolding k_def by linarith
  then have "0 \<le> (of_int u :: rat) / (2 * of_nat c)" using ux by linarith
  then have "0 \<le> u" using cpos by (simp add: zero_le_divide_iff)
  moreover have "u \<noteq> 0"
  proof
    assume "u = 0"
    then have "2 * t = int c * (2 * k - 1)" by (simp add: u_def algebra_simps)
    then show False using False by (simp add: dvd_def)
  qed
  ultimately have "1 \<le> u" by simp
  then have "(1 :: rat) \<le> of_int u" by simp
  then have below: "1 / (2 * of_nat c) \<le> x + 1 / 2 - of_int k"
    using cpos by (simp add: ux divide_right_mono)
  define v where "v = 2 * k * int c + int c - 2 * t"
  have vx: "of_int k + 1 - (x + 1 / 2) = of_int v / (2 * of_nat c)"
    using cpos by (simp add: v_def x_def field_simps)
  have "x + 1 / 2 < of_int k + 1" unfolding k_def by linarith
  then have "0 < (of_int v :: rat) / (2 * of_nat c)" using vx by linarith
  then have "0 < v" using cpos by (simp add: zero_less_divide_iff)
  then have "(1 :: rat) \<le> of_int v" by simp
  then have above: "1 / (2 * of_nat c) \<le> of_int k + 1 - (x + 1 / 2)"
    using cpos by (simp add: vx divide_right_mono)
  have "of_int k \<le> y + 1 / 2" using err small below by linarith
  moreover have "y + 1 / 2 < of_int k + 1" using err small above by linarith
  ultimately have "\<lfloor>y + 1 / 2\<rfloor> = k" by (simp add: floor_unique)
  then show ?thesis using y by (simp add: x_def k_def)
qed

text \<open>The sample engine rounds as the properties need.\<close>

lemma example_rounding_is_binary64: "binary64_rounding (round_double example_runtime)"
proof -
  have p1: "round_double example_runtime (of_int m) = Fin (of_int m)" if "\<bar>m\<bar> \<le> 2 ^ 53" for m :: int
  proof -
    have "m \<noteq> 9007199254740993" using that by auto
    then have "(of_int m :: rat) \<noteq> 9007199254740993"
      by simp
    then show ?thesis by (simp add: example_runtime_def)
  qed
  have p2: "round_double example_runtime (of_int m / 2) = Fin (of_int m / 2)"
    if "\<bar>m\<bar> \<le> 2 ^ 53" for m :: int
  proof -
    have "m \<noteq> 18014398509481986" using that by auto
    then have "(of_int m :: rat) \<noteq> 18014398509481986"
      by simp
    then have "(of_int m / 2 :: rat) \<noteq> 9007199254740993" by auto
    then show ?thesis by (simp add: example_runtime_def)
  qed
  have p3: "\<exists>y. round_double example_runtime x = Fin y \<and> \<bar>y - x\<bar> \<le> \<bar>x\<bar> / 2 ^ 53"
    if "\<bar>x\<bar> \<le> 2 ^ 53" for x :: rat
  proof -
    have "x \<noteq> 9007199254740993" using that by auto
    then have "round_double example_runtime x = Fin x" by (simp add: example_runtime_def)
    then show ?thesis by simp
  qed
  show ?thesis
    unfolding binary64_rounding_def using p1 p2 p3 by blast
qed

text \<open>
  Claim C5 speaks of every record sequence. Three runs show where it fails. For the empty
  record set the page shows the no-data panel: the statistics are not evaluated, and
  neither a total of 0 nor a \<open>NaN\<close> average arises. For the step counts \<open>2^53\<close>, 1 and 1 the
  total is \<open>2^53\<close>, each sum \<open>2^53 + 1\<close> being rounded back, where the sum of the steps is
  \<open>2^53 + 2\<close>. For the step counts \<^verbatim>\<open>"100"\<close> and \<^verbatim>\<open>"5"\<close>, two strings, \<^verbatim>\<open>+\<close> concatenates
  and the total is the string \<^verbatim>\<open>"01005"\<close>.
\<close>

theorem statistics_not_for_every_sequence:
  "statistics_panel example_runtime
     \<lparr>stepData = [], error = [], isLoading = False,
      debugInfo = NoDocumentsFound ''a@b.c''\<rparr> = Inr NoDataPanel
   \<and> total_steps example_runtime
       [\<lparr>rec_id = ''a'', steps = JNum (Fin 9007199254740992), timestamp = Date 1704099600000,
         originalTimestamp = JNum (Fin 1704099600000)\<rparr>,
        \<lparr>rec_id = ''b'', steps = JNum (Fin 1), timestamp = Date 1704103200000,
         originalTimestamp = JNum (Fin 1704103200000)\<rparr>,
        \<lparr>rec_id = ''c'', steps = JNum (Fin 1), timestamp = Date 1704106800000,
         originalTimestamp = JNum (Fin 1704106800000)\<rparr>]
     = Inr (JNum (Fin 9007199254740992))
   \<and> total_steps example_runtime
       [\<lparr>rec_id = ''a'', steps = JStr ''100'', timestamp = Date 1704099600000,
         originalTimestamp = JNum (Fin 1704099600000)\<rparr>,
        \<lparr>rec_id = ''b'', steps = JStr ''5'', timestamp = Date 1704103200000,
         originalTimestamp = JNum (Fin 1704103200000)\<rparr>]
     = Inr (JStr ''01005'')"
  by (simp add: statistics_panel_def total_steps_def js_plus_def example_runtime_def)

text \<open>
  Claim C5, as the code has it. When the page is not loading and holds no record, it
  shows no statistics. When it is not loading and holds a non-empty sequence of records
  whose step counts are the integers \<open>ns\<close>, every sum the reduction forms being at most
  \<open>2^53\<close> in magnitude, then on an engine with binary64 arithmetic the count is the length
  of the sequence and the total is the sum of the steps; and if the sequence has fewer
  than \<open>2^32\<close> records and the total is below \<open>2^52\<close> in magnitude, the average shown is
  the integer nearest to the total divided by the count, a tie going up.
\<close>

theorem statistics_shown:
  "(\<not> isLoading s \<and> stepData s = [] \<longrightarrow> statistics_panel rt s = Inr NoDataPanel)
   \<and> (binary64_rounding (round_double rt) \<and> \<not> isLoading s \<and> ns \<noteq> []
       \<and> map steps (stepData s) = map (\<lambda>i. JNum (Fin (of_int i))) ns
       \<and> partial_sums_exact 0 ns \<longrightarrow>
         (\<exists>shown. statistics_panel rt s
                     = Inr (StatisticsPanel (length ns) (JNum (Fin (of_int (sum_list ns)))) shown)
            \<and> (length ns < 2 ^ 32 \<and> \<bar>sum_list ns\<bar> < 2 ^ 52 \<longrightarrow>
                 (\<exists>k. shown = Fin (of_int k)
                     \<and> k = \<lfloor>(of_int (sum_list ns) / of_nat (length ns) :: rat) + 1 / 2\<rfloor>
                     \<and> \<bar>of_int k - (of_int (sum_list ns) / of_nat (length ns) :: rat)\<bar> \<le> 1 / 2))))"
proof -
  have empty: "statistics_panel rt s = Inr NoDataPanel" if "\<not> isLoading s" "stepData s = []"
    using that by (simp add: statistics_panel_def)
  have shown:
    "\<exists>shown. statistics_panel rt s
                = Inr (StatisticsPanel (length ns) (JNum (Fin (of_int (sum_list ns)))) shown)
       \<and> (length ns < 2 ^ 32 \<and> \<bar>sum_list ns\<bar> < 2 ^ 52 \<longrightarrow>
            (\<exists>k. shown = Fin (of_int k)
                \<and> k = \<lfloor>(of_int (sum_list ns) / of_nat (length ns) :: rat) + 1 / 2\<rfloor>
                \<and> \<bar>of_int k - (of_int (sum_list ns) / of_nat (length ns) :: rat)\<bar> \<le> 1 / 2))"
    if rd: "binary64_rounding (round_double rt)" and nl: "\<not> isLoading s" and ne: "ns \<noteq> []"
      and ints: "map steps (stepData s) = map (\<lambda>i. JNum (Fin (of_int i))) ns"
      and exact: "partial_sums_exact 0 ns"
  proof -
    let ?t = "sum_list ns"
    let ?mean = "of_int ?t / of_nat (length ns) :: rat"
    have len: "length (stepData s) = length ns"
      using ints by (metis length_map)
    have pos: "0 < length ns" using ne by simp
    have "reduce_steps rt (JNum (Fin (of_int 0))) (stepData s)
          = Inr (JNum (Fin (of_int (0 + ?t))))"
      using rd ints exact by (rule reduce_steps_integers)
    then have tot: "total_steps rt (stepData s) = Inr (JNum (Fin (of_int ?t)))"
      by (simp add: total_steps_def)
    have quot: "double_div rt (Fin (of_int ?t)) (Fin (of_nat (length ns)))
                = round_double rt ?mean"
      using pos by simp
    have panel: "statistics_panel rt s
                 = Inr (StatisticsPanel (length ns) (JNum (Fin (of_int ?t)))
                          (Math_round (round_double rt ?mean)))"
      using nl pos len tot quot by (simp add: statistics_panel_def)
    have avg: "\<exists>k. Math_round (round_double rt ?mean) = Fin (of_int k)
                 \<and> k = \<lfloor>?mean + 1 / 2\<rfloor> \<and> \<bar>of_int k - ?mean\<bar> \<le> 1 / 2"
      if lb: "length ns < 2 ^ 32" and tb: "\<bar>?t\<bar> < 2 ^ 52"
    proof -
      obtain y where y: "round_double rt ?mean = Fin y"
        and fl: "\<lfloor>y + 1 / 2\<rfloor> = \<lfloor>?mean + 1 / 2\<rfloor>"
        using mean_rounding [OF rd pos lb tb] by blast
      have "Math_round (round_double rt ?mean) = Fin (of_int \<lfloor>?mean + 1 / 2\<rfloor>)"
        by (simp add: y fl)
      moreover have "\<bar>of_int \<lfloor>?mean + 1 / 2\<rfloor> - ?mean\<bar> \<le> 1 / 2" by linarith
      ultimately show ?thesis by blast
    qed
    show ?thesis using panel avg by blast
  qed
  show ?thesis using empty shown by blast
qed

text \<open>
  Claim C5, concrete run: for the records with 50 and 100 steps the page shows the count
  2, the total 150 and the average 75.
\<close>

theorem statistics_shown_witness:
  "statistics_panel example_runtime
     \<lparr>stepData =
        [\<lparr>rec_id = ''b'', steps = JNum (Fin 50), timestamp = Date 1704099600000,
          originalTimestamp = JStr ''2024-01-01T09:00:00Z''\<rparr>,
         \<lparr>rec_id = ''a'', steps = JNum (Fin 100), timestamp = Date 1704103200000,
          originalTimestamp = JStr ''2024-01-01T10:00:00Z''\<rparr>],
      error = [], isLoading = False, debugInfo = SuccessfullyLoaded 2 (Some (Date 1704103200000))\<rparr>
   = Inr (StatisticsPanel 2 (JNum (Fin 150)) (Fin 75))"
proof -
  let ?s = "\<lparr>stepData =
        [\<lparr>rec_id = ''b'', steps = JNum (Fin 50), timestamp = Date 1704099600000,
          originalTimestamp = JStr ''2024-01-01T09:00:00Z''\<rparr>,
         \<lparr>rec_id = ''a'', steps = JNum (Fin 100), timestamp = Date 1704103200000,
          originalTimestamp = JStr ''2024-01-01T10:00:00Z''\<rparr>],
      error = [], isLoading = False, debugInfo = SuccessfullyLoaded 2 (Some (Date 1704103200000))\<rparr>"
  let ?ns = "[50, 100 :: int]"
  have h: "binary64_rounding (round_double example_runtime) \<and> \<not> isLoading ?s \<and> ?ns \<noteq> []
           \<and> map steps (stepData ?s) = map (\<lambda>i. JNum (Fin (of_int i))) ?ns
           \<and> partial_sums_exact 0 ?ns"
    using example_rounding_is_binary64 by simp
  have b: "length ?ns < 2 ^ 32 \<and> \<bar>sum_list ?ns\<bar> < 2 ^ 52" by simp
  obtain shown where
    p: "statistics_panel example_runtime ?s
          = Inr (StatisticsPanel (length ?ns) (JNum (Fin (of_int (sum_list ?ns)))) shown)"
    and k: "shown = Fin (of_int \<lfloor>(of_int (sum_list ?ns) / of_nat (length ?ns) :: rat) + 1 / 2\<rfloor>)"
    using statistics_shown [of ?s example_runtime ?ns] h b by blast
  have "\<lfloor>(of_int (sum_list ?ns) / of_nat (length ?ns) :: rat) + 1 / 2\<rfloor> = 75"
  proof -
    have "(of_int (sum_list ?ns) / of_nat (length ?ns) :: rat) = 75" by simp
    then show ?thesis by linarith
  qed
  then show ?thesis using p k by simp
qed

subsection \<open>Recent activity\<close>

text \<open>
  Claim C6: for the array at reference \<open>a\<close>, \<^verbatim>\<open>slice(-5).reverse()\<close> returns a new array
  holding the last five elements reversed, so that element \<open>i\<close> of the result is element
  \<open>i\<close> from the end of the input (the most recent record first when the input is in
  chronological order): at most five elements, the whole input reversed when it has at
  most five, and every array of the store, the input among them, is left as it was.
\<close>

theorem recent_activity_last_five:
  assumes "a < length h"
  shows "case recent_activity h a of (b, h') \<Rightarrow>
           b < length h' \<and> b \<noteq> a
           \<and> h' ! b = rev (drop (length (h ! a) - 5) (h ! a))
           \<and> length (h' ! b) \<le> 5
           \<and> (length (h ! a) \<le> 5 \<longrightarrow> h' ! b = rev (h ! a))
           \<and> (\<forall>i<length (h' ! b). h' ! b ! i = h ! a ! (length (h ! a) - 1 - i))
           \<and> (\<forall>i<length h. h' ! i = h ! i)"
proof -
  let ?xs = "h ! a"
  have k: "nat (max (int (length ?xs) + - 5) 0) = length ?xs - 5" by auto
  have r: "recent_activity h a = (length h, h @ [rev (drop (length ?xs - 5) ?xs)])"
    using assms k by (simp add: recent_activity_def Array_slice_def Array_reverse_def nth_append)
  have idx: "rev (drop (length ?xs - 5) ?xs) ! i = ?xs ! (length ?xs - 1 - i)"
    if "i < length (rev (drop (length ?xs - 5) ?xs))" for i
    using that by (simp add: rev_nth)
  show ?thesis
    unfolding r using idx assms by (auto simp: nth_append)
qed

text \<open>
  Claim C6, concrete run: of seven elements the last five come back reversed in a new
  array, and the input array still holds the seven.
\<close>

theorem recent_activity_last_five_witness:
  "recent_activity [[1, 2, 3, 4, 5, 6, 7 :: nat]] 0
   = (1, [[1, 2, 3, 4, 5, 6, 7], [7, 6, 5, 4, 3]])"
proof -
  have h: "(0::nat) < length [[1, 2, 3, 4, 5, 6, 7 :: nat]]" by simp
  show ?thesis
    using recent_activity_last_five [OF h]
    by (simp add: recent_activity_def Array_slice_def Array_reverse_def)
qed

subsection \<open>Chart\<close>

text \<open>
  Claim C7: the chart has one label and one value for each record, and at every index
  the label is the time label of that record's instant and the value is that record's
  step count.
\<close>

theorem chartData_index_correspondence:
  "length (labels (chartData rt rs)) = length rs
   \<and> (\<exists>ds. datasets (chartData rt rs) = [ds]
          \<and> length (ds_data ds) = length rs
          \<and> (\<forall>i<length rs.
                labels (chartData rt rs) ! i = toLocaleTimeString rt (timestamp (rs ! i))
                \<and> ds_data ds ! i = steps (rs ! i)))"
  by (simp add: chartData_def)

text \<open>
  Claim C7, concrete run: the records at 09:00 with 50 steps and at 10:00 with 100 steps
  give the labels 09:00 AM and 10:00 AM and the values 50 and 100.
\<close>

theorem chartData_index_correspondence_witness:
  "labels (chartData example_runtime
     [\<lparr>rec_id = ''b'', steps = JNum (Fin 50), timestamp = Date 1704099600000,
       originalTimestamp = JStr ''2024-01-01T09:00:00Z''\<rparr>,
      \<lparr>rec_id = ''a'', steps = JNum (Fin 100), timestamp = Date 1704103200000,
       originalTimestamp = JStr ''2024-01-01T10:00:00Z''\<rparr>]) = [''09:00 AM'', ''10:00 AM'']
   \<and> map ds_data (datasets (chartData example_runtime
     [\<lparr>rec_id = ''b'', steps = JNum (Fin 50), timestamp = Date 1704099600000,
       originalTimestamp = JStr ''2024-01-01T09:00:00Z''\<rparr>,
      \<lparr>rec_id = ''a'', steps = JNum (Fin 100), timestamp = Date 1704103200000,
       originalTimestamp = JStr ''2024-01-01T10:00:00Z''\<rparr>])) = [[JNum (Fin 50), JNum (Fin 100)]]"
  using chartData_index_correspondence [of example_runtime
     "[\<lparr>rec_id = ''b'', steps = JNum (Fin 50), timestamp = Date 1704099600000,
        originalTimestamp = JStr ''2024-01-01T09:00:00Z''\<rparr>,
       \<lparr>rec_id = ''a'', steps = JNum (Fin 100), timestamp = Date 1704103200000,
        originalTimestamp = JStr ''2024-01-01T10:00:00Z''\<rparr>]"]
  by (simp add: chartData_def example_runtime_def)

section \<open>Properties of the fetch\<close>

text \<open>
  Claim C9: when the query raises, the page state afterwards is the state before with
  the error message, the error details and the loading flag set, so the record set is
  the one held before; a query that returns no document sets the record set to the
  empty sequence; and whenever a fetch changes the record set, there is a user, the query
  has returned a snapshot, and the snapshot is empty or its normalization has completed.
\<close>

theorem fetchData_record_set:
  "fetchData rt (Some u) (Rejected e) s
     = s\<lparr>isLoading := False, error := ''Error fetching data: '' @ error_message rt e,
         debugInfo := ErrorDetails e\<rparr>
   \<and> stepData (fetchData rt (Some u) (Rejected e) s) = stepData s
   \<and> stepData (fetchData rt (Some u) (Snapshot []) s) = []
   \<and> (stepData (fetchData rt usr outcome s) \<noteq> stepData s \<longrightarrow>
        (\<exists>u' docs. usr = Some u' \<and> outcome = Snapshot docs
           \<and> (docs = [] \<or> (\<exists>data. normalize rt docs = Inr data))))"
  by (auto simp: fetchData_def fetch_try_def fetch_catch_def Let_def
           split: option.splits query_outcome.splits sum.splits if_splits)

text \<open>
  Claim C9, concrete run: a page holding one record keeps it when the query is refused,
  and holds none after a query that returns no document.
\<close>

theorem fetchData_record_set_witness:
  "stepData (fetchData example_runtime (Some \<lparr>uid = ''u1'', email = ''a@b.c''\<rparr>)
       (Rejected (QueryError ''Missing or insufficient permissions.''))
       \<lparr>stepData = [\<lparr>rec_id = ''a'', steps = JNum (Fin 100), timestamp = Date 1704103200000,
                      originalTimestamp = JNum (Fin 1704103200000)\<rparr>],
        error = [], isLoading = False, debugInfo = NoDebugInfo\<rparr>)
   = [\<lparr>rec_id = ''a'', steps = JNum (Fin 100), timestamp = Date 1704103200000,
       originalTimestamp = JNum (Fin 1704103200000)\<rparr>]
   \<and> error (fetchData example_runtime (Some \<lparr>uid = ''u1'', email = ''a@b.c''\<rparr>)
       (Rejected (QueryError ''Missing or insufficient permissions.''))
       \<lparr>stepData = [\<lparr>rec_id = ''a'', steps = JNum (Fin 100), timestamp = Date 1704103200000,
                      originalTimestamp = JNum (Fin 1704103200000)\<rparr>],
        error = [], isLoading = False, debugInfo = NoDebugInfo\<rparr>)
   = ''Error fetching data: Missing or insufficient permissions.''
   \<and> stepData (fetchData example_runtime (Some \<lparr>uid = ''u1'', email = ''a@b.c''\<rparr>)
       (Snapshot [])
       \<lparr>stepData = [\<lparr>rec_id = ''a'', steps = JNum (Fin 100), timestamp = Date 1704103200000,
                      originalTimestamp = JNum (Fin 1704103200000)\<rparr>],
        error = [], isLoading = False, debugInfo = NoDebugInfo\<rparr>)
   = []"
proof -
  let ?s = "\<lparr>stepData = [\<lparr>rec_id = ''a'', steps = JNum (Fin 100), timestamp = Date 1704103200000,
                           originalTimestamp = JNum (Fin 1704103200000)\<rparr>],
              error = [], isLoading = False, debugInfo = NoDebugInfo\<rparr>"
  let ?u = "\<lparr>uid = ''u1'', email = ''a@b.c''\<rparr>"
  note facts = fetchData_record_set
    [where rt = example_runtime and u = ?u and s = ?s and usr = "Some ?u"
       and e = "QueryError ''Missing or insufficient permissions.''"
       and outcome = "Snapshot []"]
  have changed: "stepData (fetchData example_runtime (Some ?u) (Snapshot []) ?s) \<noteq> stepData ?s"
    using facts by simp
  have "\<exists>u' docs. Some ?u = Some u' \<and> Snapshot [] = Snapshot docs
          \<and> (docs = [] \<or> (\<exists>data. normalize example_runtime docs = Inr data))"
    using facts changed by blast
  then show ?thesis
    using facts by (simp add: error_message_def)
qed

end
